theory Spec2Isabelle
  imports Complex_Main "HOL-Library.Word" "HOL-Library.AList"
begin

unbundle bit_operations_syntax

section \<open>Data model of \<^verbatim>\<open>main.go\<close>\<close>

text \<open>
  Go strings are byte sequences: \<^typ>\<open>string\<close> (a list of 8-bit characters).
  The Go \<^verbatim>\<open>int\<close> and \<^verbatim>\<open>int64\<close> fields are only stored and compared, never
  computed with, so they are modelled as \<^typ>\<open>int\<close>. A \<^verbatim>\<open>float64\<close> is its
  IEEE-754 binary64 bit pattern. A Go \<^verbatim>\<open>error\<close> is represented by its message.
\<close>

type_synonym float64 = "64 word"
type_synonym go_error = string

record Message =
  Role :: string
  Content :: string

record DeepSeekRequestPayload =
  Model :: string
  Messages :: "Message list"
  Stream :: bool
  MaxTokens :: int
  Temperature :: float64

record Choice =
  Index :: int
  Message :: Message
  FinishReason :: string

record UsageInfo =
  PromptTokens :: int
  CompletionTokens :: int
  TotalTokens :: int

record DeepSeekResponsePayload =
  ID :: string
  Object :: string
  Created :: int
  Model :: string
  Choices :: "Choice list"
  Usage :: UsageInfo

subsection \<open>The float64 constant \<^verbatim>\<open>0.7\<close>\<close>

text \<open>
  The value of a finite binary64 bit pattern: sign bit 63, biased exponent in bits
  62..52, fraction in bits 51..0. Infinities and NaNs (exponent 2047) have no value.
\<close>

definition float64_value :: "float64 \<Rightarrow> rat option" where
  "float64_value w =
     (let e = unat (drop_bit 52 w AND 0x7FF);
          m = unat (w AND 0xFFFFFFFFFFFFF);
          sg = (if bit w 63 then - 1 else 1)
      in if e = 2047 then None
         else if e = 0 then Some (sg * of_nat m / 2 ^ 1074)
         else if e < 1075 then Some (sg * of_nat (2 ^ 52 + m) / 2 ^ (1075 - e))
         else Some (sg * of_nat (2 ^ 52 + m) * 2 ^ (e - 1075)))"

text \<open>
  The untyped Go constant \<^verbatim>\<open>0.7\<close> assigned to a \<^verbatim>\<open>float64\<close> field is rounded to
  the nearest binary64 number, whose bit pattern is \<^verbatim>\<open>0x3FE6666666666666\<close>.
\<close>

definition float64_0_7 :: float64 where
  "float64_0_7 = 0x3FE6666666666666"

section \<open>External collaborators\<close>

text \<open>
  The handler talks to \<^verbatim>\<open>encoding/json\<close>, \<^verbatim>\<open>net/http\<close>, \<^verbatim>\<open>io\<close>, \<^verbatim>\<open>log\<close> and gin.
  Their code is not part of the repository, so what they return is a parameter of
  the model; every error return the handler checks is a branch.
\<close>

record http_request =
  Method :: string
  URL :: string
  Header :: "(string \<times> string) list"
  ReqBody :: string

text \<open>
  An upstream response as the handler reads it: the status code, and what
  \<^verbatim>\<open>io.ReadAll(resp.Body)\<close> gives (an error or the whole body).
\<close>

record http_response =
  StatusCode :: int
  Body :: "go_error + string"

record env =
  Marshal :: "DeepSeekRequestPayload \<Rightarrow> go_error + string"
  NewRequestError :: "string \<Rightarrow> string \<Rightarrow> go_error option"
  Do :: "http_request \<Rightarrow> go_error + http_response"
  Unmarshal :: "string \<Rightarrow> go_error + DeepSeekResponsePayload"

text \<open>\<^verbatim>\<open>http.NewRequest\<close>: an error, or a request with the given method, URL and body.\<close>

definition NewRequest :: "env \<Rightarrow> string \<Rightarrow> string \<Rightarrow> string \<Rightarrow> go_error + http_request" where
  "NewRequest e method url body =
     (case NewRequestError e method url of
        Some err \<Rightarrow> Inl err
      | None \<Rightarrow> Inr \<lparr>Method = method, URL = url, Header = [], ReqBody = body\<rparr>)"

text \<open>\<^verbatim>\<open>req.Header.Set(key, value)\<close> replaces the value stored under the key.\<close>

definition Header_Set :: "http_request \<Rightarrow> string \<Rightarrow> string \<Rightarrow> http_request" where
  "Header_Set req k v = req\<lparr>Header := AList.update k v (Header req)\<rparr>"

text \<open>
  The inbound request: the decoded URL query parameters, each key with its values.
  \<^verbatim>\<open>c.Query(key)\<close> is the first value of the key, or the empty string when the key
  is absent.
\<close>

record Context =
  QueryParams :: "(string \<times> string list) list"

definition Query :: "Context \<Rightarrow> string \<Rightarrow> string" where
  "Query c key =
     (case map_of (QueryParams c) key of
        Some (v # vs) \<Rightarrow> v
      | _ \<Rightarrow> [])"

text \<open>A log line: the format string and its arguments (\<^verbatim>\<open>%s\<close>, \<^verbatim>\<open>%v\<close> or \<^verbatim>\<open>%d\<close>).\<close>

datatype log_arg = ArgS string | ArgD int

type_synonym log_entry = "string \<times> log_arg list"

text \<open>
  What one run of the handler does: the status and body given to \<^verbatim>\<open>c.String\<close>, the
  lines logged, and the requests handed to \<^verbatim>\<open>client.Do\<close>, in order.
\<close>

record outcome =
  Status :: int
  ResponseBody :: string
  Log :: "log_entry list"
  Outbound :: "http_request list"

definition StatusOK :: int where "StatusOK = 200"
definition StatusBadRequest :: int where "StatusBadRequest = 400"
definition StatusInternalServerError :: int where "StatusInternalServerError = 500"

section \<open>The handler of \<^verbatim>\<open>GET /\<close>\<close>

definition apiUrl :: string where
  "apiUrl = ''https://llm.chutes.ai/v1/chat/completions''"

text \<open>The payload literal of lines 77--83.\<close>

definition build_payload :: "string \<Rightarrow> DeepSeekRequestPayload" where
  "build_payload query =
     \<lparr>DeepSeekRequestPayload.Model = ''deepseek-ai/DeepSeek-R1'',
      Messages = [\<lparr>Role = ''user'', Content = query\<rparr>],
      Stream = False,
      MaxTokens = 1024,
      Temperature = float64_0_7\<rparr>"

text \<open>The two header assignments of lines 107--109.\<close>

definition set_headers :: "http_request \<Rightarrow> string \<Rightarrow> http_request" where
  "set_headers req apiKey =
     Header_Set (Header_Set req ''Content-Type'' ''application/json'')
       ''Authorization'' (''Bearer '' @ apiKey)"

definition handler :: "env \<Rightarrow> string \<Rightarrow> Context \<Rightarrow> outcome" where
  "handler e apiKey c =
     (let query = Query c ''q'' in
      if query = [] then
        \<lparr>Status = StatusBadRequest,
         ResponseBody = ''Please provide a query with the 'q' parameter. Example: /?q=Hello'',
         Log = [], Outbound = []\<rparr>
      else
        let log1 = [(''Received request for DeepSeek: %s'', [ArgS query])];
            payload = build_payload query
        in case Marshal e payload of
             Inl err \<Rightarrow>
               \<lparr>Status = StatusInternalServerError,
                ResponseBody = ''Internal server error.'',
                Log = log1 @ [(''Error marshaling JSON request for DeepSeek: %v'', [ArgS err])],
                Outbound = []\<rparr>
           | Inr jsonPayload \<Rightarrow>
               (case NewRequest e ''POST'' apiUrl jsonPayload of
                  Inl err \<Rightarrow>
                    \<lparr>Status = StatusInternalServerError,
                     ResponseBody = ''Internal server error.'',
                     Log = log1 @ [(''Error creating HTTP request for DeepSeek: %v'', [ArgS err])],
                     Outbound = []\<rparr>
                | Inr req0 \<Rightarrow>
                    let req = set_headers req0 apiKey in
                    (case Do e req of
                       Inl err \<Rightarrow>
                         \<lparr>Status = StatusInternalServerError,
                          ResponseBody = ''Failed to contact DeepSeek LLM. Please try again later.'',
                          Log = log1 @ [(''Error sending request to DeepSeek API: %v'', [ArgS err])],
                          Outbound = [req]\<rparr>
                     | Inr resp \<Rightarrow>
                         (case Body resp of
                            Inl err \<Rightarrow>
                              \<lparr>Status = StatusInternalServerError,
                               ResponseBody = ''Internal server error.'',
                               Log = log1 @ [(''Error reading response body from DeepSeek API: %v'', [ArgS err])],
                               Outbound = [req]\<rparr>
                          | Inr body \<Rightarrow>
                              if StatusCode resp \<noteq> StatusOK then
                                \<lparr>Status = StatusInternalServerError,
                                 ResponseBody = ''Error from DeepSeek LLM. Please try again later.'',
                                 Log = log1 @ [(''Error from DeepSeek API. Status: %d, Body: %s'',
                                                [ArgD (StatusCode resp), ArgS body])],
                                 Outbound = [req]\<rparr>
                              else
                                (case Unmarshal e body of
                                   Inl err \<Rightarrow>
                                     \<lparr>Status = StatusInternalServerError,
                                      ResponseBody = ''Internal server error: invalid response format from DeepSeek LLM.'',
                                      Log = log1 @ [(''Error decoding JSON response from DeepSeek API: %v'', [ArgS err])],
                                      Outbound = [req]\<rparr>
                                 | Inr deepseekResponse \<Rightarrow>
                                     if length (Choices deepseekResponse) > 0
                                        \<and> Content (Message (Choices deepseekResponse ! 0)) \<noteq> []
                                     then
                                       let llmText = Content (Message (Choices deepseekResponse ! 0)) in
                                       \<lparr>Status = StatusOK,
                                        ResponseBody = llmText,
                                        Log = log1 @ [(''DeepSeek LLM response: %s'', [ArgS llmText])],
                                        Outbound = [req]\<rparr>
                                     else
                                       \<lparr>Status = StatusOK,
                                        ResponseBody = ''DeepSeek LLM could not generate a response to your query.'',
                                        Log = log1 @ [(''DeepSeek LLM did not provide a text response.'', [])],
                                        Outbound = [req]\<rparr>)))))"

section \<open>Vocabulary of the statements\<close>

text \<open>
  The request that reaches \<^verbatim>\<open>client.Do\<close> when serialization gave \<open>jsonPayload\<close>:
  lines 101--109 with both library calls succeeding.
\<close>

definition outbound_request :: "string \<Rightarrow> string \<Rightarrow> http_request" where
  "outbound_request apiKey jsonPayload =
     set_headers \<lparr>Method = ''POST'', URL = apiUrl, Header = [], ReqBody = jsonPayload\<rparr> apiKey"

text \<open>
  The path condition ``the upstream call returned \<open>resp\<close> and its body was read as
  \<open>body\<close>'': the query is non-empty, the payload was serialized, the request was
  created, \<^verbatim>\<open>client.Do\<close> returned \<open>resp\<close> and \<^verbatim>\<open>io.ReadAll\<close> returned \<open>body\<close>.
\<close>

definition upstream_replied :: "env \<Rightarrow> string \<Rightarrow> Context \<Rightarrow> http_response \<Rightarrow> string \<Rightarrow> bool" where
  "upstream_replied e apiKey c resp body =
     (Query c ''q'' \<noteq> [] \<and>
      (case Marshal e (build_payload (Query c ''q'')) of
         Inl err \<Rightarrow> False
       | Inr j \<Rightarrow>
           NewRequestError e ''POST'' apiUrl = None \<and>
           Do e (outbound_request apiKey j) = Inr resp \<and>
           Body resp = Inr body))"

definition is_2xx :: "int \<Rightarrow> bool" where
  "is_2xx s = (200 \<le> s \<and> s < 300)"

definition fallback_text :: string where
  "fallback_text = ''DeepSeek LLM could not generate a response to your query.''"

definition upstream_error_text :: string where
  "upstream_error_text = ''Error from DeepSeek LLM. Please try again later.''"

definition malformed_text :: string where
  "malformed_text = ''Internal server error: invalid response format from DeepSeek LLM.''"

subsection \<open>Stubbed collaborators for concrete runs\<close>

definition ctx :: "string \<Rightarrow> Context" where
  "ctx q = \<lparr>QueryParams = [(''q'', [q])]\<rparr>"

definition ctx_without_q :: Context where
  "ctx_without_q = \<lparr>QueryParams = [(''lang'', [''en''])]\<rparr>"

definition answer :: "string \<Rightarrow> DeepSeekResponsePayload" where
  "answer t =
     \<lparr>ID = ''cmpl-1'', Object = ''chat.completion'', Created = 1700000000,
      Model = ''deepseek-ai/DeepSeek-R1'',
      Choices = [\<lparr>Index = 0, Message = \<lparr>Role = ''assistant'', Content = t\<rparr>,
                  FinishReason = ''stop''\<rparr>],
      Usage = \<lparr>PromptTokens = 4, CompletionTokens = 2, TotalTokens = 6\<rparr>\<rparr>"

definition no_choices :: DeepSeekResponsePayload where
  "no_choices = (answer [])\<lparr>Choices := []\<rparr>"

text \<open>A stub parser: three bodies it accepts, everything else is a syntax error.\<close>

definition stub_parse :: "string \<Rightarrow> go_error + DeepSeekResponsePayload" where
  "stub_parse b =
     (if b = ''hi'' then Inr (answer ''Hi there'')
      else if b = ''blank'' then Inr (answer [])
      else if b = ''none'' then Inr no_choices
      else Inl ''invalid character'')"

text \<open>A stub serializer that emits the content of the messages and nothing else.\<close>

definition stub_marshal :: "DeepSeekRequestPayload \<Rightarrow> go_error + string" where
  "stub_marshal p = Inr (concat (map Content (Messages p)))"

text \<open>A stub upstream that answers every request with status \<open>st\<close> and body \<open>b\<close>.\<close>

definition stub_env :: "int \<Rightarrow> string \<Rightarrow> env" where
  "stub_env st b =
     \<lparr>Marshal = stub_marshal,
      NewRequestError = (\<lambda>method url. None),
      Do = (\<lambda>req. Inr \<lparr>StatusCode = st, Body = Inr b\<rparr>),
      Unmarshal = stub_parse\<rparr>"

text \<open>A stub upstream that cannot be reached.\<close>

definition unreachable_env :: env where
  "unreachable_env = (stub_env 0 [])\<lparr>Do := (\<lambda>req. Inl ''dial tcp: connection refused'')\<rparr>"

text \<open>A stub serializer that fails, a stub request constructor that fails, and a stub
  upstream whose body cannot be read to the end.\<close>

definition encode_failing_env :: env where
  "encode_failing_env =
     (stub_env 200 ''hi'')\<lparr>Marshal := (\<lambda>p. Inl ''json: unsupported value'')\<rparr>"

definition request_failing_env :: env where
  "request_failing_env =
     (stub_env 200 ''hi'')\<lparr>NewRequestError := (\<lambda>method url. Some ''net/http: invalid method'')\<rparr>"

definition read_failing_env :: env where
  "read_failing_env =
     (stub_env 200 ''hi'')\<lparr>Do := (\<lambda>req. Inr \<lparr>StatusCode = 200, Body = Inl ''unexpected EOF''\<rparr>)\<rparr>"

section \<open>Facts about the handler\<close>

lemmas status_defs = StatusOK_def StatusBadRequest_def StatusInternalServerError_def

lemmas text_defs = fallback_text_def upstream_error_text_def malformed_text_def

lemmas stub_defs = ctx_def ctx_without_q_def answer_def no_choices_def stub_parse_def
  stub_marshal_def stub_env_def unreachable_env_def encode_failing_env_def
  request_failing_env_def read_failing_env_def Query_def build_payload_def

lemma Query_absent: "map_of (QueryParams c) key = None \<Longrightarrow> Query c key = []"
  by (simp add: Query_def)

lemma handler_no_query:
  assumes "Query c ''q'' = []"
  shows "handler e apiKey c =
     \<lparr>Status = 400,
      ResponseBody = ''Please provide a query with the 'q' parameter. Example: /?q=Hello'',
      Log = [], Outbound = []\<rparr>"
  using assms by (simp add: handler_def status_defs)

lemma upstream_repliedD:
  assumes "upstream_replied e apiKey c resp body"
  obtains j where "Query c ''q'' \<noteq> []"
    and "Marshal e (build_payload (Query c ''q'')) = Inr j"
    and "NewRequestError e ''POST'' apiUrl = None"
    and "Do e (outbound_request apiKey j) = Inr resp"
    and "Body resp = Inr body"
  using assms by (auto simp: upstream_replied_def split: sum.splits)

lemma handler_replied:
  assumes "Query c ''q'' \<noteq> []"
    and "Marshal e (build_payload (Query c ''q'')) = Inr j"
    and "NewRequestError e ''POST'' apiUrl = None"
    and "Do e (outbound_request apiKey j) = Inr resp"
    and "Body resp = Inr body"
  shows "handler e apiKey c =
     (if StatusCode resp \<noteq> 200 then
        \<lparr>Status = 500, ResponseBody = upstream_error_text,
         Log = [(''Received request for DeepSeek: %s'', [ArgS (Query c ''q'')]),
                (''Error from DeepSeek API. Status: %d, Body: %s'',
                 [ArgD (StatusCode resp), ArgS body])],
         Outbound = [outbound_request apiKey j]\<rparr>
      else case Unmarshal e body of
        Inl err \<Rightarrow>
          \<lparr>Status = 500, ResponseBody = malformed_text,
           Log = [(''Received request for DeepSeek: %s'', [ArgS (Query c ''q'')]),
                  (''Error decoding JSON response from DeepSeek API: %v'', [ArgS err])],
           Outbound = [outbound_request apiKey j]\<rparr>
      | Inr r \<Rightarrow>
          if Choices r \<noteq> [] \<and> Content (Message (Choices r ! 0)) \<noteq> [] then
            \<lparr>Status = 200, ResponseBody = Content (Message (Choices r ! 0)),
             Log = [(''Received request for DeepSeek: %s'', [ArgS (Query c ''q'')]),
                    (''DeepSeek LLM response: %s'', [ArgS (Content (Message (Choices r ! 0)))])],
             Outbound = [outbound_request apiKey j]\<rparr>
          else
            \<lparr>Status = 200, ResponseBody = fallback_text,
             Log = [(''Received request for DeepSeek: %s'', [ArgS (Query c ''q'')]),
                    (''DeepSeek LLM did not provide a text response.'', [])],
             Outbound = [outbound_request apiKey j]\<rparr>)"
  using assms
  by (simp add: handler_def Let_def NewRequest_def outbound_request_def status_defs text_defs
      split: sum.splits)

lemma handler_replied_non200:
  assumes "upstream_replied e apiKey c resp body" and "StatusCode resp \<noteq> 200"
  shows "Status (handler e apiKey c) = 500"
    and "ResponseBody (handler e apiKey c) = upstream_error_text"
    and "(''Error from DeepSeek API. Status: %d, Body: %s'', [ArgD (StatusCode resp), ArgS body])
           \<in> set (Log (handler e apiKey c))"
    and "length (Outbound (handler e apiKey c)) = 1"
  using assms by (auto elim!: upstream_repliedD simp: handler_replied)

lemma handler_replied_unparsed:
  assumes "upstream_replied e apiKey c resp body" and "StatusCode resp = 200"
    and "Unmarshal e body = Inl err"
  shows "Status (handler e apiKey c) = 500"
    and "ResponseBody (handler e apiKey c) = malformed_text"
    and "length (Outbound (handler e apiKey c)) = 1"
  using assms by (auto elim!: upstream_repliedD simp: handler_replied)

lemma handler_replied_parsed:
  assumes "upstream_replied e apiKey c resp body" and "StatusCode resp = 200"
    and "Unmarshal e body = Inr r"
  shows "Status (handler e apiKey c) = 200"
    and "ResponseBody (handler e apiKey c) =
           (if Choices r \<noteq> [] \<and> Content (Message (Choices r ! 0)) \<noteq> []
            then Content (Message (Choices r ! 0)) else fallback_text)"
  using assms by (auto elim!: upstream_repliedD simp: handler_replied)

lemma upstream_replied_stub:
  "q \<noteq> [] \<Longrightarrow>
   upstream_replied (stub_env st b) apiKey (ctx q) \<lparr>StatusCode = st, Body = Inr b\<rparr> b"
  by (simp add: upstream_replied_def stub_defs)

lemma handler_query_present:
  assumes "Query c ''q'' \<noteq> []"
  shows "Status (handler e apiKey c) \<noteq> 400"
  using assms by (simp add: handler_def Let_def status_defs split: sum.split)

lemma handler_outbound:
  assumes "Query c ''q'' \<noteq> []"
    and "Marshal e (build_payload (Query c ''q'')) = Inr j"
    and "NewRequestError e ''POST'' apiUrl = None"
  shows "Outbound (handler e apiKey c) = [outbound_request apiKey j]"
  using assms
  by (simp add: handler_def Let_def NewRequest_def outbound_request_def split: sum.split)

lemma handler_500_text:
  "Status (handler e apiKey c) = 500 \<longrightarrow>
   ResponseBody (handler e apiKey c) \<in>
     {''Internal server error.'',
      ''Failed to contact DeepSeek LLM. Please try again later.'',
      upstream_error_text, malformed_text}"
  by (simp add: handler_def Let_def status_defs text_defs split: sum.split)

text \<open>The four failures before the status of the response is looked at.\<close>

lemma handler_encode_failed:
  assumes "Query c ''q'' \<noteq> []"
    and "Marshal e (build_payload (Query c ''q'')) = Inl err"
  shows "handler e apiKey c =
     \<lparr>Status = 500, ResponseBody = ''Internal server error.'',
      Log = [(''Received request for DeepSeek: %s'', [ArgS (Query c ''q'')]),
             (''Error marshaling JSON request for DeepSeek: %v'', [ArgS err])],
      Outbound = []\<rparr>"
  using assms by (simp add: handler_def Let_def status_defs)

lemma handler_request_failed:
  assumes "Query c ''q'' \<noteq> []"
    and "Marshal e (build_payload (Query c ''q'')) = Inr j"
    and "NewRequestError e ''POST'' apiUrl = Some err"
  shows "handler e apiKey c =
     \<lparr>Status = 500, ResponseBody = ''Internal server error.'',
      Log = [(''Received request for DeepSeek: %s'', [ArgS (Query c ''q'')]),
             (''Error creating HTTP request for DeepSeek: %v'', [ArgS err])],
      Outbound = []\<rparr>"
  using assms by (simp add: handler_def Let_def NewRequest_def status_defs)

lemma handler_transport_failed:
  assumes "Query c ''q'' \<noteq> []"
    and "Marshal e (build_payload (Query c ''q'')) = Inr j"
    and "NewRequestError e ''POST'' apiUrl = None"
    and "Do e (outbound_request apiKey j) = Inl err"
  shows "handler e apiKey c =
     \<lparr>Status = 500,
      ResponseBody = ''Failed to contact DeepSeek LLM. Please try again later.'',
      Log = [(''Received request for DeepSeek: %s'', [ArgS (Query c ''q'')]),
             (''Error sending request to DeepSeek API: %v'', [ArgS err])],
      Outbound = [outbound_request apiKey j]\<rparr>"
  using assms
  by (simp add: handler_def Let_def NewRequest_def outbound_request_def status_defs)

lemma handler_read_failed:
  assumes "Query c ''q'' \<noteq> []"
    and "Marshal e (build_payload (Query c ''q'')) = Inr j"
    and "NewRequestError e ''POST'' apiUrl = None"
    and "Do e (outbound_request apiKey j) = Inr resp"
    and "Body resp = Inl err"
  shows "handler e apiKey c =
     \<lparr>Status = 500, ResponseBody = ''Internal server error.'',
      Log = [(''Received request for DeepSeek: %s'', [ArgS (Query c ''q'')]),
             (''Error reading response body from DeepSeek API: %v'', [ArgS err])],
      Outbound = [outbound_request apiKey j]\<rparr>"
  using assms
  by (simp add: handler_def Let_def NewRequest_def outbound_request_def status_defs)

text \<open>
  The serializer is only ever applied to the payload built from the query: replacing
  it by one that ignores its argument and serializes that payload changes nothing.
\<close>

lemma handler_Marshal_cong:
  "handler (e\<lparr>Marshal := \<lambda>p. Marshal e (build_payload (Query c ''q''))\<rparr>) apiKey c
     = handler e apiKey c"
  by (simp add: handler_def Let_def NewRequest_def cong: sum.case_cong option.case_cong if_cong)

lemma float64_0_7_value:
  "float64_value float64_0_7 = Some (3152519739159347 / 4503599627370496)"
  by (simp add: float64_value_def float64_0_7_def Let_def)

section \<open>The claims\<close>

subsection \<open>C1: the first choice's text is relayed\<close>

text \<open>
  Claim C1, amended. For every non-empty \<open>q\<close>, if the upstream call returns status
  exactly 200 with a body that parses to a response whose \<open>choices\<close> sequence is
  non-empty and whose first choice has a non-empty message content, the handler
  responds HTTP 200 with a body equal to that content, untransformed.
\<close>

theorem first_choice_relayed:
  assumes "upstream_replied e apiKey c resp body"
    and "StatusCode resp = 200"
    and "Unmarshal e body = Inr r"
    and "Choices r \<noteq> []"
    and "Content (Message (Choices r ! 0)) \<noteq> []"
  shows "Status (handler e apiKey c) = 200 \<and>
         ResponseBody (handler e apiKey c) = Content (Message (Choices r ! 0))"
  using assms handler_replied_parsed [of e apiKey c resp body r] by simp

theorem first_choice_relayed_witness:
  "upstream_replied (stub_env 200 ''hi'') ''key'' (ctx ''Hello'')
     \<lparr>StatusCode = 200, Body = Inr ''hi''\<rparr> ''hi'' \<and>
   Unmarshal (stub_env 200 ''hi'') ''hi'' = Inr (answer ''Hi there'') \<and>
   Status (handler (stub_env 200 ''hi'') ''key'' (ctx ''Hello'')) = 200 \<and>
   ResponseBody (handler (stub_env 200 ''hi'') ''key'' (ctx ''Hello'')) = ''Hi there''"
proof -
  have r: "upstream_replied (stub_env 200 ''hi'') ''key'' (ctx ''Hello'')
     \<lparr>StatusCode = 200, Body = Inr ''hi''\<rparr> ''hi''"
    by (simp add: upstream_replied_stub)
  have u: "Unmarshal (stub_env 200 ''hi'') ''hi'' = Inr (answer ''Hi there'')"
    by (simp add: stub_defs)
  show ?thesis
    using first_choice_relayed [OF r _ u] r u by (simp add: answer_def)
qed

text \<open>
  As stated, C1 fails twice. A well-formed response with status 201 and a usable
  first choice is answered with HTTP 500, because line 128 compares the status with
  200 and not with the 2xx range. A response with status 200 whose first choice has
  the empty content is answered with the fallback text, which is not that content,
  because line 144 also requires the content to be non-empty.
\<close>

theorem first_choice_relayed_counterexample:
  "upstream_replied (stub_env 201 ''hi'') ''key'' (ctx ''Hello'')
     \<lparr>StatusCode = 201, Body = Inr ''hi''\<rparr> ''hi'' \<and>
   is_2xx 201 \<and>
   Unmarshal (stub_env 201 ''hi'') ''hi'' = Inr (answer ''Hi there'') \<and>
   Choices (answer ''Hi there'') \<noteq> [] \<and>
   Status (handler (stub_env 201 ''hi'') ''key'' (ctx ''Hello'')) = 500 \<and>
   ResponseBody (handler (stub_env 201 ''hi'') ''key'' (ctx ''Hello''))
     \<noteq> Content (Message (Choices (answer ''Hi there'') ! 0)) \<and>
   upstream_replied (stub_env 200 ''blank'') ''key'' (ctx ''Hello'')
     \<lparr>StatusCode = 200, Body = Inr ''blank''\<rparr> ''blank'' \<and>
   is_2xx 200 \<and>
   Unmarshal (stub_env 200 ''blank'') ''blank'' = Inr (answer []) \<and>
   Choices (answer []) \<noteq> [] \<and>
   ResponseBody (handler (stub_env 200 ''blank'') ''key'' (ctx ''Hello''))
     \<noteq> Content (Message (Choices (answer []) ! 0))"
  by (simp add: upstream_replied_def is_2xx_def handler_def Let_def NewRequest_def
      outbound_request_def status_defs stub_defs)

subsection \<open>C2: a missing query is rejected before any call\<close>

text \<open>
  Claim C2. For every inbound request whose \<open>q\<close> parameter is absent or the empty
  string, the handler responds HTTP 400 with the fixed instructional message and
  hands no request to the HTTP client.
\<close>

theorem missing_query_rejected:
  assumes "map_of (QueryParams c) ''q'' = None \<or> Query c ''q'' = []"
  shows "Status (handler e apiKey c) = 400 \<and>
         ResponseBody (handler e apiKey c) =
           ''Please provide a query with the 'q' parameter. Example: /?q=Hello'' \<and>
         Outbound (handler e apiKey c) = []"
proof -
  from assms have "Query c ''q'' = []"
    by (auto dest: Query_absent)
  then show ?thesis
    by (simp add: handler_no_query)
qed

theorem missing_query_rejected_witness:
  "map_of (QueryParams ctx_without_q) ''q'' = None \<and>
   Status (handler (stub_env 200 ''hi'') ''key'' ctx_without_q) = 400 \<and>
   Outbound (handler (stub_env 200 ''hi'') ''key'' ctx_without_q) = [] \<and>
   Query (ctx []) ''q'' = [] \<and>
   Status (handler (stub_env 200 ''hi'') ''key'' (ctx [])) = 400 \<and>
   Outbound (handler (stub_env 200 ''hi'') ''key'' (ctx [])) = []"
proof -
  have a: "map_of (QueryParams ctx_without_q) ''q'' = None"
    by (simp add: ctx_without_q_def)
  have b: "Query (ctx []) ''q'' = []"
    by (simp add: ctx_def Query_def)
  show ?thesis
    using missing_query_rejected [OF disjI1, OF a, of "stub_env 200 ''hi''" "''key''"]
      missing_query_rejected [OF disjI2, OF b, of "stub_env 200 ''hi''" "''key''"] a b
    by simp
qed

subsection \<open>C3: which statuses are parsed\<close>

text \<open>
  Claim C3, amended. For every upstream response, a status other than 200 is treated
  as an upstream-error failure: HTTP 500 with the upstream-error text, the status and
  body being logged. On status 200, and only then, the body is parsed as a
  CompletionResponse: a parse failure gives HTTP 500 with the malformed-response
  text, a parsed response gives HTTP 200 with the extracted text.
\<close>

theorem only_status_200_is_parsed:
  assumes "upstream_replied e apiKey c resp body"
  shows "(StatusCode resp \<noteq> 200 \<longrightarrow>
            Status (handler e apiKey c) = 500 \<and>
            ResponseBody (handler e apiKey c) = upstream_error_text \<and>
            (''Error from DeepSeek API. Status: %d, Body: %s'',
               [ArgD (StatusCode resp), ArgS body]) \<in> set (Log (handler e apiKey c))) \<and>
         (StatusCode resp = 200 \<longrightarrow>
            (case Unmarshal e body of
               Inl err \<Rightarrow>
                 Status (handler e apiKey c) = 500 \<and>
                 ResponseBody (handler e apiKey c) = malformed_text
             | Inr r \<Rightarrow>
                 Status (handler e apiKey c) = 200 \<and>
                 ResponseBody (handler e apiKey c) =
                   (if Choices r \<noteq> [] \<and> Content (Message (Choices r ! 0)) \<noteq> []
                    then Content (Message (Choices r ! 0)) else fallback_text)))"
  using handler_replied_non200 [OF assms] handler_replied_unparsed [OF assms]
    handler_replied_parsed [OF assms]
  by (simp split: sum.split)

theorem only_status_200_is_parsed_witness:
  "upstream_replied (stub_env 404 ''not found'') ''key'' (ctx ''Hello'')
     \<lparr>StatusCode = 404, Body = Inr ''not found''\<rparr> ''not found'' \<and>
   Status (handler (stub_env 404 ''not found'') ''key'' (ctx ''Hello'')) = 500 \<and>
   ResponseBody (handler (stub_env 404 ''not found'') ''key'' (ctx ''Hello''))
     = ''Error from DeepSeek LLM. Please try again later.'' \<and>
   upstream_replied (stub_env 200 ''hi'') ''key'' (ctx ''Hello'')
     \<lparr>StatusCode = 200, Body = Inr ''hi''\<rparr> ''hi'' \<and>
   Status (handler (stub_env 200 ''hi'') ''key'' (ctx ''Hello'')) = 200 \<and>
   ResponseBody (handler (stub_env 200 ''hi'') ''key'' (ctx ''Hello'')) = ''Hi there''"
proof -
  have a: "upstream_replied (stub_env 404 ''not found'') ''key'' (ctx ''Hello'')
     \<lparr>StatusCode = 404, Body = Inr ''not found''\<rparr> ''not found''"
    by (simp add: upstream_replied_stub)
  have b: "upstream_replied (stub_env 200 ''hi'') ''key'' (ctx ''Hello'')
     \<lparr>StatusCode = 200, Body = Inr ''hi''\<rparr> ''hi''"
    by (simp add: upstream_replied_stub)
  have u: "Unmarshal (stub_env 200 ''hi'') ''hi'' = Inr (answer ''Hi there'')"
    by (simp add: stub_defs)
  show ?thesis
    using only_status_200_is_parsed [OF a] only_status_200_is_parsed [OF b] a b u
    by (simp add: answer_def text_defs)
qed

text \<open>
  As stated, C3 fails at status 204: the body would parse to a usable answer, yet
  the handler takes the error path, answers HTTP 500 and logs an upstream error.
\<close>

theorem every_2xx_is_parsed_counterexample:
  "upstream_replied (stub_env 204 ''hi'') ''key'' (ctx ''Hello'')
     \<lparr>StatusCode = 204, Body = Inr ''hi''\<rparr> ''hi'' \<and>
   is_2xx 204 \<and>
   Unmarshal (stub_env 204 ''hi'') ''hi'' = Inr (answer ''Hi there'') \<and>
   Status (handler (stub_env 204 ''hi'') ''key'' (ctx ''Hello'')) = 500 \<and>
   ResponseBody (handler (stub_env 204 ''hi'') ''key'' (ctx ''Hello'')) = upstream_error_text \<and>
   Log (handler (stub_env 204 ''hi'') ''key'' (ctx ''Hello'')) =
     [(''Received request for DeepSeek: %s'', [ArgS ''Hello'']),
      (''Error from DeepSeek API. Status: %d, Body: %s'', [ArgD 204, ArgS ''hi''])]"
  by (simp add: upstream_replied_def is_2xx_def handler_def Let_def NewRequest_def
      outbound_request_def status_defs stub_defs text_defs)

subsection \<open>C4: an empty answer is a success\<close>

text \<open>
  Claim C4. For every successfully parsed upstream response (status 200, body parsed)
  whose \<open>choices\<close> sequence is empty, or whose first choice has the empty message
  content, the handler responds HTTP 200 with the fixed fallback text: a success, not
  an HTTP 500.
\<close>

theorem empty_answer_is_success:
  assumes "upstream_replied e apiKey c resp body"
    and "StatusCode resp = 200"
    and "Unmarshal e body = Inr r"
    and "Choices r = [] \<or> Content (Message (Choices r ! 0)) = []"
  shows "Status (handler e apiKey c) = 200 \<and>
         ResponseBody (handler e apiKey c) =
           ''DeepSeek LLM could not generate a response to your query.''"
  using assms(4) handler_replied_parsed [OF assms(1-3)]
  by (auto simp: fallback_text_def)

theorem empty_answer_is_success_witness:
  "upstream_replied (stub_env 200 ''none'') ''key'' (ctx ''Hello'')
     \<lparr>StatusCode = 200, Body = Inr ''none''\<rparr> ''none'' \<and>
   Unmarshal (stub_env 200 ''none'') ''none'' = Inr no_choices \<and>
   Choices no_choices = [] \<and>
   Status (handler (stub_env 200 ''none'') ''key'' (ctx ''Hello'')) = 200 \<and>
   ResponseBody (handler (stub_env 200 ''none'') ''key'' (ctx ''Hello'')) =
     ''DeepSeek LLM could not generate a response to your query.'' \<and>
   upstream_replied (stub_env 200 ''blank'') ''key'' (ctx ''Hello'')
     \<lparr>StatusCode = 200, Body = Inr ''blank''\<rparr> ''blank'' \<and>
   Unmarshal (stub_env 200 ''blank'') ''blank'' = Inr (answer []) \<and>
   Content (Message (Choices (answer []) ! 0)) = [] \<and>
   Status (handler (stub_env 200 ''blank'') ''key'' (ctx ''Hello'')) = 200 \<and>
   ResponseBody (handler (stub_env 200 ''blank'') ''key'' (ctx ''Hello'')) =
     ''DeepSeek LLM could not generate a response to your query.''"
proof -
  have a: "upstream_replied (stub_env 200 ''none'') ''key'' (ctx ''Hello'')
     \<lparr>StatusCode = 200, Body = Inr ''none''\<rparr> ''none''"
    by (simp add: upstream_replied_stub)
  have ua: "Unmarshal (stub_env 200 ''none'') ''none'' = Inr no_choices"
    by (simp add: stub_defs)
  have ca: "Choices no_choices = []"
    by (simp add: no_choices_def)
  have b: "upstream_replied (stub_env 200 ''blank'') ''key'' (ctx ''Hello'')
     \<lparr>StatusCode = 200, Body = Inr ''blank''\<rparr> ''blank''"
    by (simp add: upstream_replied_stub)
  have ub: "Unmarshal (stub_env 200 ''blank'') ''blank'' = Inr (answer [])"
    by (simp add: stub_defs)
  have cb: "Content (Message (Choices (answer []) ! 0)) = []"
    by (simp add: answer_def)
  show ?thesis
    using empty_answer_is_success [OF a _ ua disjI1, OF _ ca]
      empty_answer_is_success [OF b _ ub disjI2, OF _ cb] a ua ca b ub cb
    by simp
qed

subsection \<open>C5: the fixed fields of the outbound payload\<close>

text \<open>
  Claim C5. For every non-empty query string, the payload the handler builds has
  exactly one message, with role \<open>user\<close> and the query as content, the fixed model
  identifier, \<open>stream = false\<close>, \<open>max_tokens = 1024\<close> and \<open>temperature = 0.7\<close>: the
  stored binary64 number is \<open>3152519739159347 / 2^52\<close>, less than half a unit in
  the last place (\<open>2^-54\<close>) away from \<open>7/10\<close>, so it is the float64 nearest to 0.7.
  It is the only payload the handler serializes.
\<close>

theorem payload_fixed_fields:
  assumes "Query c ''q'' = q" and "q \<noteq> []"
  shows "Messages (build_payload q) = [\<lparr>Role = ''user'', Content = q\<rparr>] \<and>
         DeepSeekRequestPayload.Model (build_payload q) = ''deepseek-ai/DeepSeek-R1'' \<and>
         Stream (build_payload q) = False \<and>
         MaxTokens (build_payload q) = 1024 \<and>
         float64_value (Temperature (build_payload q))
           = Some (3152519739159347 / 4503599627370496) \<and>
         \<bar>3152519739159347 / 4503599627370496 - 7 / (10 :: rat)\<bar> < 1 / 2 ^ 54 \<and>
         handler (e\<lparr>Marshal := \<lambda>p. Marshal e (build_payload q)\<rparr>) apiKey c
           = handler e apiKey c"
  using assms handler_Marshal_cong [of e c apiKey]
  by (simp add: build_payload_def float64_0_7_value)

theorem payload_fixed_fields_witness:
  "Query (ctx ''Hello'') ''q'' = ''Hello'' \<and>
   Messages (build_payload ''Hello'') = [\<lparr>Role = ''user'', Content = ''Hello''\<rparr>] \<and>
   DeepSeekRequestPayload.Model (build_payload ''Hello'') = ''deepseek-ai/DeepSeek-R1'' \<and>
   Stream (build_payload ''Hello'') = False \<and>
   MaxTokens (build_payload ''Hello'') = 1024 \<and>
   float64_value (Temperature (build_payload ''Hello''))
     = Some (3152519739159347 / 4503599627370496)"
proof -
  have a: "Query (ctx ''Hello'') ''q'' = ''Hello''"
    by (simp add: ctx_def Query_def)
  show ?thesis
    using payload_fixed_fields [OF a, of "stub_env 200 ''hi''" "''key''"] a by simp
qed

subsection \<open>C7: a body that does not parse\<close>

text \<open>
  Claim C7, amended. For every 2xx upstream response whose body cannot be parsed as a
  CompletionResponse, the handler responds HTTP 500 after a single outbound call (no
  retry). The failure is reported as malformed-upstream-response exactly when the
  status is 200; for every other 2xx status it is reported as upstream-error, the
  body not being parsed at all.
\<close>

theorem unparsable_2xx_classification:
  assumes "upstream_replied e apiKey c resp body"
    and "is_2xx (StatusCode resp)"
    and "Unmarshal e body = Inl err"
  shows "Status (handler e apiKey c) = 500 \<and>
         length (Outbound (handler e apiKey c)) = 1 \<and>
         (ResponseBody (handler e apiKey c) = malformed_text \<longleftrightarrow> StatusCode resp = 200) \<and>
         (ResponseBody (handler e apiKey c) = upstream_error_text \<longleftrightarrow> StatusCode resp \<noteq> 200)"
proof (cases "StatusCode resp = 200")
  case True
  with handler_replied_unparsed [OF assms(1) True assms(3)] show ?thesis
    by (simp add: text_defs)
next
  case False
  with handler_replied_non200 [OF assms(1) False] show ?thesis
    by (simp add: text_defs)
qed

theorem unparsable_2xx_classification_witness:
  "upstream_replied (stub_env 200 ''<html>'') ''key'' (ctx ''Hello'')
     \<lparr>StatusCode = 200, Body = Inr ''<html>''\<rparr> ''<html>'' \<and>
   is_2xx 200 \<and>
   Unmarshal (stub_env 200 ''<html>'') ''<html>'' = Inl ''invalid character'' \<and>
   Status (handler (stub_env 200 ''<html>'') ''key'' (ctx ''Hello'')) = 500 \<and>
   ResponseBody (handler (stub_env 200 ''<html>'') ''key'' (ctx ''Hello''))
     = ''Internal server error: invalid response format from DeepSeek LLM.'' \<and>
   length (Outbound (handler (stub_env 200 ''<html>'') ''key'' (ctx ''Hello''))) = 1"
proof -
  have a: "upstream_replied (stub_env 200 ''<html>'') ''key'' (ctx ''Hello'')
     \<lparr>StatusCode = 200, Body = Inr ''<html>''\<rparr> ''<html>''"
    by (simp add: upstream_replied_stub)
  have s: "is_2xx (StatusCode \<lparr>StatusCode = 200, Body = Inr ''<html>''\<rparr>)"
    by (simp add: is_2xx_def)
  have u: "Unmarshal (stub_env 200 ''<html>'') ''<html>'' = Inl ''invalid character''"
    by (simp add: stub_defs)
  show ?thesis
    using unparsable_2xx_classification [OF a s u] a s u
    by (simp add: text_defs)
qed

text \<open>
  As stated, C7 fails at status 202: the body does not parse, and the caller is told
  of an upstream error, not of a malformed response; the log line is the
  upstream-error one.
\<close>

theorem unparsable_2xx_is_malformed_counterexample:
  "upstream_replied (stub_env 202 ''<html>'') ''key'' (ctx ''Hello'')
     \<lparr>StatusCode = 202, Body = Inr ''<html>''\<rparr> ''<html>'' \<and>
   is_2xx 202 \<and>
   Unmarshal (stub_env 202 ''<html>'') ''<html>'' = Inl ''invalid character'' \<and>
   ResponseBody (handler (stub_env 202 ''<html>'') ''key'' (ctx ''Hello'')) \<noteq> malformed_text \<and>
   ResponseBody (handler (stub_env 202 ''<html>'') ''key'' (ctx ''Hello'')) = upstream_error_text \<and>
   Log (handler (stub_env 202 ''<html>'') ''key'' (ctx ''Hello'')) =
     [(''Received request for DeepSeek: %s'', [ArgS ''Hello'']),
      (''Error from DeepSeek API. Status: %d, Body: %s'', [ArgD 202, ArgS ''<html>''])]"
  by (simp add: upstream_replied_def is_2xx_def handler_def Let_def NewRequest_def
      outbound_request_def status_defs stub_defs text_defs)

subsection \<open>C6: serialization\<close>

text \<open>
  The handler only calls \<^verbatim>\<open>json.Marshal\<close> on the payload and never decodes a
  request payload. How \<^verbatim>\<open>encoding/json\<close> encodes and decodes is not code of
  \<^verbatim>\<open>main.go\<close>; here \<^const>\<open>Marshal\<close> and \<^const>\<open>Unmarshal\<close> are parameters, and
  no round-trip law is assumed of them.
\<close>

subsection \<open>C8: what a failure shows to the caller\<close>

text \<open>
  Claim C8. Every per-request failure is answered with HTTP 500 and a fixed text
  chosen by the failing step alone: an encode failure, a request creation failure
  and a body read failure with \<open>Internal server error.\<close>, a transport failure with
  the unreachable text, a status other than 200 with the upstream-error text, a parse
  failure with the malformed-response text, whatever the error, the upstream body
  or the upstream status is. Whenever the handler answers HTTP 500 the body is one of
  these four constants of the program, not built from the upstream body or status,
  and it has no digit in it, so no status code is ever rendered into it. Any two
  upstream error responses, whatever their bodies and (non-200) status codes, give
  the caller the same status and body; so do any two unparsable bodies at status
  200. ``Does not contain the upstream body'' is stated as this independence: the
  text is the same for every upstream body.
\<close>

theorem failure_text_is_fixed:
  "(Status (handler e apiKey c) = 500 \<longrightarrow>
      ResponseBody (handler e apiKey c) \<in>
        {''Internal server error.'',
         ''Failed to contact DeepSeek LLM. Please try again later.'',
         ''Error from DeepSeek LLM. Please try again later.'',
         ''Internal server error: invalid response format from DeepSeek LLM.''} \<and>
      (\<forall>ch \<in> set (ResponseBody (handler e apiKey c)). ch \<notin> set ''0123456789'')) \<and>
   (upstream_replied e apiKey c resp body \<and> StatusCode resp \<noteq> 200 \<and>
    upstream_replied e' apiKey c resp' body' \<and> StatusCode resp' \<noteq> 200 \<longrightarrow>
      Status (handler e apiKey c) = 500 \<and>
      Status (handler e' apiKey c) = 500 \<and>
      ResponseBody (handler e apiKey c) = ''Error from DeepSeek LLM. Please try again later.'' \<and>
      ResponseBody (handler e' apiKey c) = ResponseBody (handler e apiKey c)) \<and>
   (upstream_replied e apiKey c resp body \<and> StatusCode resp = 200 \<and>
    Unmarshal e body = Inl err \<and>
    upstream_replied e' apiKey c resp' body' \<and> StatusCode resp' = 200 \<and>
    Unmarshal e' body' = Inl err' \<longrightarrow>
      Status (handler e apiKey c) = 500 \<and>
      Status (handler e' apiKey c) = 500 \<and>
      ResponseBody (handler e apiKey c) =
        ''Internal server error: invalid response format from DeepSeek LLM.'' \<and>
      ResponseBody (handler e' apiKey c) = ResponseBody (handler e apiKey c)) \<and>
   (Query c ''q'' \<noteq> [] \<and> Marshal e (build_payload (Query c ''q'')) = Inl merr \<longrightarrow>
      Status (handler e apiKey c) = 500 \<and>
      ResponseBody (handler e apiKey c) = ''Internal server error.'') \<and>
   (Query c ''q'' \<noteq> [] \<and> Marshal e (build_payload (Query c ''q'')) = Inr j \<and>
    NewRequestError e ''POST'' apiUrl = Some nerr \<longrightarrow>
      Status (handler e apiKey c) = 500 \<and>
      ResponseBody (handler e apiKey c) = ''Internal server error.'') \<and>
   (Query c ''q'' \<noteq> [] \<and> Marshal e (build_payload (Query c ''q'')) = Inr j \<and>
    NewRequestError e ''POST'' apiUrl = None \<and>
    Do e (outbound_request apiKey j) = Inl derr \<longrightarrow>
      Status (handler e apiKey c) = 500 \<and>
      ResponseBody (handler e apiKey c) =
        ''Failed to contact DeepSeek LLM. Please try again later.'') \<and>
   (Query c ''q'' \<noteq> [] \<and> Marshal e (build_payload (Query c ''q'')) = Inr j \<and>
    NewRequestError e ''POST'' apiUrl = None \<and>
    Do e (outbound_request apiKey j) = Inr rresp \<and> Body rresp = Inl rerr \<longrightarrow>
      Status (handler e apiKey c) = 500 \<and>
      ResponseBody (handler e apiKey c) = ''Internal server error.'')"
proof (intro conjI impI)
  assume "Status (handler e apiKey c) = 500"
  with handler_500_text [of e apiKey c]
  have m: "ResponseBody (handler e apiKey c) \<in>
        {''Internal server error.'',
         ''Failed to contact DeepSeek LLM. Please try again later.'',
         ''Error from DeepSeek LLM. Please try again later.'',
         ''Internal server error: invalid response format from DeepSeek LLM.''}"
    by (simp add: text_defs)
  then show "ResponseBody (handler e apiKey c) \<in>
        {''Internal server error.'',
         ''Failed to contact DeepSeek LLM. Please try again later.'',
         ''Error from DeepSeek LLM. Please try again later.'',
         ''Internal server error: invalid response format from DeepSeek LLM.''}" .
  from m show "\<forall>ch \<in> set (ResponseBody (handler e apiKey c)). ch \<notin> set ''0123456789''"
    by (elim insertE emptyE) simp_all
next
  assume a: "upstream_replied e apiKey c resp body \<and> StatusCode resp \<noteq> 200 \<and>
    upstream_replied e' apiKey c resp' body' \<and> StatusCode resp' \<noteq> 200"
  then have 1: "upstream_replied e apiKey c resp body" "StatusCode resp \<noteq> 200"
    and 2: "upstream_replied e' apiKey c resp' body'" "StatusCode resp' \<noteq> 200"
    by simp_all
  note f = handler_replied_non200 [OF 1] handler_replied_non200 [OF 2]
  show "Status (handler e apiKey c) = 500" by (simp add: f)
  show "Status (handler e' apiKey c) = 500" by (simp add: f)
  show "ResponseBody (handler e apiKey c) = ''Error from DeepSeek LLM. Please try again later.''"
    by (simp add: f text_defs)
  show "ResponseBody (handler e' apiKey c) = ResponseBody (handler e apiKey c)"
    by (simp add: f)
next
  assume a: "upstream_replied e apiKey c resp body \<and> StatusCode resp = 200 \<and>
    Unmarshal e body = Inl err \<and>
    upstream_replied e' apiKey c resp' body' \<and> StatusCode resp' = 200 \<and>
    Unmarshal e' body' = Inl err'"
  then have 1: "upstream_replied e apiKey c resp body" "StatusCode resp = 200"
      "Unmarshal e body = Inl err"
    and 2: "upstream_replied e' apiKey c resp' body'" "StatusCode resp' = 200"
      "Unmarshal e' body' = Inl err'"
    by simp_all
  note f = handler_replied_unparsed [OF 1] handler_replied_unparsed [OF 2]
  show "Status (handler e apiKey c) = 500" by (simp add: f)
  show "Status (handler e' apiKey c) = 500" by (simp add: f)
  show "ResponseBody (handler e apiKey c) =
        ''Internal server error: invalid response format from DeepSeek LLM.''"
    by (simp add: f text_defs)
  show "ResponseBody (handler e' apiKey c) = ResponseBody (handler e apiKey c)"
    by (simp add: f)
next
  assume "Query c ''q'' \<noteq> [] \<and> Marshal e (build_payload (Query c ''q'')) = Inl merr"
  then have f: "handler e apiKey c =
     \<lparr>Status = 500, ResponseBody = ''Internal server error.'',
      Log = [(''Received request for DeepSeek: %s'', [ArgS (Query c ''q'')]),
             (''Error marshaling JSON request for DeepSeek: %v'', [ArgS merr])],
      Outbound = []\<rparr>"
    by (simp add: handler_encode_failed)
  show "Status (handler e apiKey c) = 500" by (simp add: f)
  show "ResponseBody (handler e apiKey c) = ''Internal server error.''" by (simp add: f)
next
  assume "Query c ''q'' \<noteq> [] \<and> Marshal e (build_payload (Query c ''q'')) = Inr j \<and>
    NewRequestError e ''POST'' apiUrl = Some nerr"
  then have f: "handler e apiKey c =
     \<lparr>Status = 500, ResponseBody = ''Internal server error.'',
      Log = [(''Received request for DeepSeek: %s'', [ArgS (Query c ''q'')]),
             (''Error creating HTTP request for DeepSeek: %v'', [ArgS nerr])],
      Outbound = []\<rparr>"
    by (simp add: handler_request_failed)
  show "Status (handler e apiKey c) = 500" by (simp add: f)
  show "ResponseBody (handler e apiKey c) = ''Internal server error.''" by (simp add: f)
next
  assume "Query c ''q'' \<noteq> [] \<and> Marshal e (build_payload (Query c ''q'')) = Inr j \<and>
    NewRequestError e ''POST'' apiUrl = None \<and>
    Do e (outbound_request apiKey j) = Inl derr"
  then have f: "handler e apiKey c =
     \<lparr>Status = 500,
      ResponseBody = ''Failed to contact DeepSeek LLM. Please try again later.'',
      Log = [(''Received request for DeepSeek: %s'', [ArgS (Query c ''q'')]),
             (''Error sending request to DeepSeek API: %v'', [ArgS derr])],
      Outbound = [outbound_request apiKey j]\<rparr>"
    by (simp add: handler_transport_failed)
  show "Status (handler e apiKey c) = 500" by (simp add: f)
  show "ResponseBody (handler e apiKey c) =
        ''Failed to contact DeepSeek LLM. Please try again later.''" by (simp add: f)
next
  assume "Query c ''q'' \<noteq> [] \<and> Marshal e (build_payload (Query c ''q'')) = Inr j \<and>
    NewRequestError e ''POST'' apiUrl = None \<and>
    Do e (outbound_request apiKey j) = Inr rresp \<and> Body rresp = Inl rerr"
  then have f: "handler e apiKey c =
     \<lparr>Status = 500, ResponseBody = ''Internal server error.'',
      Log = [(''Received request for DeepSeek: %s'', [ArgS (Query c ''q'')]),
             (''Error reading response body from DeepSeek API: %v'', [ArgS rerr])],
      Outbound = [outbound_request apiKey j]\<rparr>"
    by (simp add: handler_read_failed)
  show "Status (handler e apiKey c) = 500" by (simp add: f)
  show "ResponseBody (handler e apiKey c) = ''Internal server error.''" by (simp add: f)
qed

theorem failure_text_is_fixed_witness:
  "upstream_replied (stub_env 500 ''panic: db at 10.0.0.7'') ''key'' (ctx ''Hello'')
     \<lparr>StatusCode = 500, Body = Inr ''panic: db at 10.0.0.7''\<rparr> ''panic: db at 10.0.0.7'' \<and>
   upstream_replied (stub_env 429 ''rate limited'') ''key'' (ctx ''Hello'')
     \<lparr>StatusCode = 429, Body = Inr ''rate limited''\<rparr> ''rate limited'' \<and>
   Status (handler (stub_env 500 ''panic: db at 10.0.0.7'') ''key'' (ctx ''Hello'')) = 500 \<and>
   ResponseBody (handler (stub_env 500 ''panic: db at 10.0.0.7'') ''key'' (ctx ''Hello''))
     = ''Error from DeepSeek LLM. Please try again later.'' \<and>
   ResponseBody (handler (stub_env 429 ''rate limited'') ''key'' (ctx ''Hello''))
     = ResponseBody (handler (stub_env 500 ''panic: db at 10.0.0.7'') ''key'' (ctx ''Hello'')) \<and>
   upstream_replied (stub_env 200 ''<html>'') ''key'' (ctx ''Hello'')
     \<lparr>StatusCode = 200, Body = Inr ''<html>''\<rparr> ''<html>'' \<and>
   upstream_replied (stub_env 200 ''{'') ''key'' (ctx ''Hello'')
     \<lparr>StatusCode = 200, Body = Inr ''{''\<rparr> ''{'' \<and>
   ResponseBody (handler (stub_env 200 ''<html>'') ''key'' (ctx ''Hello''))
     = ''Internal server error: invalid response format from DeepSeek LLM.'' \<and>
   ResponseBody (handler (stub_env 200 ''{'') ''key'' (ctx ''Hello''))
     = ResponseBody (handler (stub_env 200 ''<html>'') ''key'' (ctx ''Hello'')) \<and>
   set (ResponseBody (handler (stub_env 500 ''panic: db at 10.0.0.7'') ''key'' (ctx ''Hello'')))
     \<inter> set ''0123456789'' = {} \<and>
   Marshal encode_failing_env (build_payload (Query (ctx ''Hello'') ''q''))
     = Inl ''json: unsupported value'' \<and>
   Status (handler encode_failing_env ''key'' (ctx ''Hello'')) = 500 \<and>
   ResponseBody (handler encode_failing_env ''key'' (ctx ''Hello'')) = ''Internal server error.'' \<and>
   NewRequestError request_failing_env ''POST'' apiUrl = Some ''net/http: invalid method'' \<and>
   Status (handler request_failing_env ''key'' (ctx ''Hello'')) = 500 \<and>
   ResponseBody (handler request_failing_env ''key'' (ctx ''Hello'')) = ''Internal server error.'' \<and>
   Do unreachable_env (outbound_request ''key'' ''Hello'') = Inl ''dial tcp: connection refused'' \<and>
   Status (handler unreachable_env ''key'' (ctx ''Hello'')) = 500 \<and>
   ResponseBody (handler unreachable_env ''key'' (ctx ''Hello''))
     = ''Failed to contact DeepSeek LLM. Please try again later.'' \<and>
   Do read_failing_env (outbound_request ''key'' ''Hello'')
     = Inr \<lparr>StatusCode = 200, Body = Inl ''unexpected EOF''\<rparr> \<and>
   Status (handler read_failing_env ''key'' (ctx ''Hello'')) = 500 \<and>
   ResponseBody (handler read_failing_env ''key'' (ctx ''Hello'')) = ''Internal server error.''"
proof -
  have q: "Query (ctx ''Hello'') ''q'' \<noteq> []"
    by (simp add: stub_defs)
  have me: "Marshal encode_failing_env (build_payload (Query (ctx ''Hello'') ''q''))
     = Inl ''json: unsupported value''"
    by (simp add: stub_defs)
  have mn: "Marshal request_failing_env (build_payload (Query (ctx ''Hello'') ''q''))
     = Inr ''Hello''"
    by (simp add: stub_defs)
  have nn: "NewRequestError request_failing_env ''POST'' apiUrl = Some ''net/http: invalid method''"
    by (simp add: stub_defs)
  have mu: "Marshal unreachable_env (build_payload (Query (ctx ''Hello'') ''q'')) = Inr ''Hello''"
    by (simp add: stub_defs)
  have nu: "NewRequestError unreachable_env ''POST'' apiUrl = None"
    by (simp add: stub_defs)
  have du: "Do unreachable_env (outbound_request ''key'' ''Hello'')
     = Inl ''dial tcp: connection refused''"
    by (simp add: stub_defs)
  have mr: "Marshal read_failing_env (build_payload (Query (ctx ''Hello'') ''q'')) = Inr ''Hello''"
    by (simp add: stub_defs)
  have nr: "NewRequestError read_failing_env ''POST'' apiUrl = None"
    by (simp add: stub_defs)
  have dr: "Do read_failing_env (outbound_request ''key'' ''Hello'')
     = Inr \<lparr>StatusCode = 200, Body = Inl ''unexpected EOF''\<rparr>"
    by (simp add: stub_defs)
  have a: "upstream_replied (stub_env 500 ''panic: db at 10.0.0.7'') ''key'' (ctx ''Hello'')
     \<lparr>StatusCode = 500, Body = Inr ''panic: db at 10.0.0.7''\<rparr> ''panic: db at 10.0.0.7''"
    by (simp add: upstream_replied_stub)
  have b: "upstream_replied (stub_env 429 ''rate limited'') ''key'' (ctx ''Hello'')
     \<lparr>StatusCode = 429, Body = Inr ''rate limited''\<rparr> ''rate limited''"
    by (simp add: upstream_replied_stub)
  have c: "upstream_replied (stub_env 200 ''<html>'') ''key'' (ctx ''Hello'')
     \<lparr>StatusCode = 200, Body = Inr ''<html>''\<rparr> ''<html>''"
    by (simp add: upstream_replied_stub)
  have d: "upstream_replied (stub_env 200 ''{'') ''key'' (ctx ''Hello'')
     \<lparr>StatusCode = 200, Body = Inr ''{''\<rparr> ''{''"
    by (simp add: upstream_replied_stub)
  have uc: "Unmarshal (stub_env 200 ''<html>'') ''<html>'' = Inl ''invalid character''"
    by (simp add: stub_defs)
  have ud: "Unmarshal (stub_env 200 ''{'') ''{'' = Inl ''invalid character''"
    by (simp add: stub_defs)
  note c2 = failure_text_is_fixed [THEN conjunct2, THEN conjunct1, THEN mp]
  note c3 = failure_text_is_fixed [THEN conjunct2, THEN conjunct2, THEN conjunct1, THEN mp]
  note c4 = failure_text_is_fixed [THEN conjunct2, THEN conjunct2, THEN conjunct2,
      THEN conjunct1, THEN mp]
  note c5 = failure_text_is_fixed [THEN conjunct2, THEN conjunct2, THEN conjunct2,
      THEN conjunct2, THEN conjunct1, THEN mp]
  note c6 = failure_text_is_fixed [THEN conjunct2, THEN conjunct2, THEN conjunct2,
      THEN conjunct2, THEN conjunct2, THEN conjunct1, THEN mp]
  note c7 = failure_text_is_fixed [THEN conjunct2, THEN conjunct2, THEN conjunct2,
      THEN conjunct2, THEN conjunct2, THEN conjunct2, THEN mp]
  have w2: "Status (handler (stub_env 500 ''panic: db at 10.0.0.7'') ''key'' (ctx ''Hello'')) = 500 \<and>
      Status (handler (stub_env 429 ''rate limited'') ''key'' (ctx ''Hello'')) = 500 \<and>
      ResponseBody (handler (stub_env 500 ''panic: db at 10.0.0.7'') ''key'' (ctx ''Hello''))
        = ''Error from DeepSeek LLM. Please try again later.'' \<and>
      ResponseBody (handler (stub_env 429 ''rate limited'') ''key'' (ctx ''Hello''))
        = ResponseBody (handler (stub_env 500 ''panic: db at 10.0.0.7'') ''key'' (ctx ''Hello''))"
    by (rule c2 [OF conjI, OF a conjI, OF _ conjI, OF _ b]) simp_all
  have w3: "Status (handler (stub_env 200 ''<html>'') ''key'' (ctx ''Hello'')) = 500 \<and>
      Status (handler (stub_env 200 ''{'') ''key'' (ctx ''Hello'')) = 500 \<and>
      ResponseBody (handler (stub_env 200 ''<html>'') ''key'' (ctx ''Hello''))
        = ''Internal server error: invalid response format from DeepSeek LLM.'' \<and>
      ResponseBody (handler (stub_env 200 ''{'') ''key'' (ctx ''Hello''))
        = ResponseBody (handler (stub_env 200 ''<html>'') ''key'' (ctx ''Hello''))"
    by (rule c3 [OF conjI, OF c conjI, OF _ conjI, OF _ uc conjI, OF _ d conjI, OF _ _ ud])
      simp_all
  have w1: "set (ResponseBody (handler (stub_env 500 ''panic: db at 10.0.0.7'') ''key''
        (ctx ''Hello''))) \<inter> set ''0123456789'' = {}"
    using failure_text_is_fixed [THEN conjunct1, THEN mp, THEN conjunct2,
        of "stub_env 500 ''panic: db at 10.0.0.7''" "''key''" "ctx ''Hello''"] w2
    by auto
  have w4: "Status (handler encode_failing_env ''key'' (ctx ''Hello'')) = 500 \<and>
      ResponseBody (handler encode_failing_env ''key'' (ctx ''Hello'')) = ''Internal server error.''"
    by (rule c4 [OF conjI, OF q me])
  have w5: "Status (handler request_failing_env ''key'' (ctx ''Hello'')) = 500 \<and>
      ResponseBody (handler request_failing_env ''key'' (ctx ''Hello'')) = ''Internal server error.''"
    by (rule c5 [OF conjI, OF q conjI, OF mn nn])
  have w6: "Status (handler unreachable_env ''key'' (ctx ''Hello'')) = 500 \<and>
      ResponseBody (handler unreachable_env ''key'' (ctx ''Hello''))
        = ''Failed to contact DeepSeek LLM. Please try again later.''"
    by (rule c6 [OF conjI, OF q conjI, OF mu conjI, OF nu du])
  have w7: "Status (handler read_failing_env ''key'' (ctx ''Hello'')) = 500 \<and>
      ResponseBody (handler read_failing_env ''key'' (ctx ''Hello'')) = ''Internal server error.''"
    by (rule c7 [OF conjI, OF q conjI, OF mr conjI, OF nr conjI, OF dr]) simp
  show ?thesis
    using a b c d me nn du dr w1 w2 w3 w4 w5 w6 w7 by simp
qed

subsection \<open>C9: the statuses of the public interface\<close>

text \<open>
  Claim C9. For every inbound request and every behaviour of the collaborators, the
  status the handler returns is 200, 400 or 500.
\<close>

theorem status_200_400_or_500:
  "Status (handler e apiKey c) = 200 \<or> Status (handler e apiKey c) = 400 \<or>
   Status (handler e apiKey c) = 500"
  by (simp add: handler_def Let_def status_defs split: sum.split)

theorem status_200_400_or_500_witness:
  "Status (handler unreachable_env ''key'' (ctx ''Hello'')) = 200 \<or>
   Status (handler unreachable_env ''key'' (ctx ''Hello'')) = 400 \<or>
   Status (handler unreachable_env ''key'' (ctx ''Hello'')) = 500"
  using status_200_400_or_500 [of unreachable_env "''key''" "ctx ''Hello''"] .

subsection \<open>C10: no trimming of the query\<close>

text \<open>
  Claim C10. Every non-empty \<open>q\<close>, also one made of whitespace only, is treated as
  present: the answer is not HTTP 400, the single user message of the payload has
  \<open>q\<close> itself as content, and when serialization and request creation succeed the
  one outbound request carries the serialized payload as its body.
\<close>

theorem nonempty_query_forwarded_verbatim:
  assumes "Query c ''q'' = q" and "q \<noteq> []"
  shows "Status (handler e apiKey c) \<noteq> 400 \<and>
         Messages (build_payload q) = [\<lparr>Role = ''user'', Content = q\<rparr>] \<and>
         (\<forall>j. Marshal e (build_payload q) = Inr j \<and> NewRequestError e ''POST'' apiUrl = None \<longrightarrow>
              Outbound (handler e apiKey c) = [outbound_request apiKey j] \<and>
              ReqBody (outbound_request apiKey j) = j)"
  using assms handler_query_present [of c e apiKey] handler_outbound [of c e _ apiKey]
  by (auto simp: build_payload_def outbound_request_def set_headers_def Header_Set_def)

theorem nonempty_query_forwarded_verbatim_witness:
  "Query (ctx ''   '') ''q'' = ''   '' \<and>
   Status (handler (stub_env 200 ''hi'') ''key'' (ctx ''   '')) \<noteq> 400 \<and>
   Messages (build_payload ''   '') = [\<lparr>Role = ''user'', Content = ''   ''\<rparr>] \<and>
   Marshal (stub_env 200 ''hi'') (build_payload ''   '') = Inr ''   '' \<and>
   Outbound (handler (stub_env 200 ''hi'') ''key'' (ctx ''   '')) = [outbound_request ''key'' ''   '']"
proof -
  have a: "Query (ctx ''   '') ''q'' = ''   ''"
    by (simp add: ctx_def Query_def)
  have m: "Marshal (stub_env 200 ''hi'') (build_payload ''   '') = Inr ''   ''"
    by (simp add: stub_defs)
  have n: "NewRequestError (stub_env 200 ''hi'') ''POST'' apiUrl = None"
    by (simp add: stub_defs)
  show ?thesis
    using nonempty_query_forwarded_verbatim [OF a, of "stub_env 200 ''hi''" "''key''"] a m n
    by simp
qed

end
